theory Spec2Isabelle
  imports Main "HOL-Library.Sublist"
begin

section \<open>Data model of the LangGraph agent (graph.py, db\_utils.py)\<close>

text \<open>
  Python exceptions the modelled code can raise, as values. \<open>IndexError\<close>, \<open>AttributeError\<close>
  and \<open>KeyError\<close> come from the indexing, attribute and dictionary accesses of the node
  functions; \<open>OperationalError\<close> is sqlite3's error on a query against a missing table;
  \<open>ValidationError\<close>, \<open>ValueError\<close> and \<open>TypeError\<close> are raised in the prebuilt tool node;
  \<open>GraphRecursionError\<close> by the graph runner when its step limit is reached.
\<close>

datatype error =
    IndexError
  | AttributeError
  | KeyError
  | OperationalError
  | ValidationError
  | ValueError
  | TypeError
  | GraphRecursionError

text \<open>
  A tool call is the dictionary \<open>{'name': .., 'args': {..}, 'id': ..}\<close> attached to an
  assistant message. The argument dictionary is a map from parameter names to values.
\<close>

record tool_call =
  tc_name :: string
  tc_args :: "string \<rightharpoonup> string"
  tc_id :: "string option"

datatype tool_status = Success | Error

text \<open>
  The message classes graph.py imports. Only \<open>AIMessage\<close> has the attribute
  \<open>tool_calls\<close>; its last field is the message id. A \<open>ToolMessage\<close> carries its content,
  the tool's name, the id of the call it answers and a status.
\<close>

datatype message =
    HumanMessage string
  | SystemMessage string
  | AIMessage string "tool_call list" "string option"
  | ToolMessage string string "string option" tool_status

text \<open>\<open>class AgentState(TypedDict)\<close>: messages, user\_name (None when unknown), user\_id.\<close>

record agent_state =
  messages :: "message list"
  user_name :: "string option"
  user_id :: string

text \<open>
  A node returns a partial dictionary over the keys of the state; \<open>None\<close> is an absent key.
  \<open>{}\<close> is \<open>no_update\<close>.
\<close>

record update =
  upd_messages :: "message list option"
  upd_user_name :: "string option"
  upd_user_id :: "string option"

definition no_update :: update where
  "no_update = \<lparr>upd_messages = None, upd_user_name = None, upd_user_id = None\<rparr>"

text \<open>
  The reducer annotated on \<open>messages\<close>: \<open>lambda x, y: x + y if y else x\<close>, that is
  \<open>(x + y) if y else x\<close>.
\<close>

definition messages_reducer :: "message list \<Rightarrow> message list \<Rightarrow> message list" where
  "messages_reducer x y = (if y \<noteq> [] then x @ y else x)"

text \<open>
  Merging a node's update into the state: \<open>messages\<close> through its reducer; \<open>user_name\<close>
  and \<open>user_id\<close> carry no reducer, so a written value replaces the old one.
\<close>

definition apply_update :: "agent_state \<Rightarrow> update \<Rightarrow> agent_state" where
  "apply_update s u =
     \<lparr>messages = (case upd_messages u of None \<Rightarrow> messages s
                    | Some y \<Rightarrow> messages_reducer (messages s) y),
      user_name = (case upd_user_name u of None \<Rightarrow> user_name s | Some n \<Rightarrow> Some n),
      user_id = (case upd_user_id u of None \<Rightarrow> user_id s | Some i \<Rightarrow> i)\<rparr>"

section \<open>The durable store (db\_utils.py)\<close>

text \<open>
  The sqlite file \<open>user_data.db\<close>: either the table \<open>users\<close> does not exist, or it maps
  the primary key \<open>user_id\<close> to a name.
\<close>

datatype user_db = NoTable | Table "string \<rightharpoonup> string"

definition create_user_database :: "user_db \<Rightarrow> user_db" where
  "create_user_database db = (case db of NoTable \<Rightarrow> Table Map.empty | Table t \<Rightarrow> Table t)"

definition get_user_name :: "user_db \<Rightarrow> string \<Rightarrow> error + string option" where
  "get_user_name db uid =
     (case db of NoTable \<Rightarrow> Inl OperationalError | Table t \<Rightarrow> Inr (t uid))"

definition persist_user_name_to_db :: "user_db \<Rightarrow> string \<Rightarrow> string \<Rightarrow> error + user_db" where
  "persist_user_name_to_db db uid n =
     (case db of NoTable \<Rightarrow> Inl OperationalError | Table t \<Rightarrow> Inr (Table (t(uid \<mapsto> n))))"

text \<open>\<open>cleanup_db\<close> removes the database file: the table is gone.\<close>

definition cleanup_db :: "user_db \<Rightarrow> user_db" where
  "cleanup_db db = NoTable"

section \<open>The tool and the directive\<close>

definition remember_tool_name :: string where
  "remember_tool_name = ''remember_user_name_external''"

definition remember_user_name_external ::
  "user_db \<Rightarrow> string \<Rightarrow> string \<Rightarrow> error + (string \<times> user_db)" where
  "remember_user_name_external db uid n =
     (case persist_user_name_to_db db uid n of
        Inl e \<Rightarrow> Inl e
      | Inr db' \<Rightarrow> Inr (''OK, I've saved '' @ n @ '' to your main profile.'', db'))"

text \<open>Python's truth value of \<open>name\<close>: \<open>None\<close> and the empty string are false.\<close>

definition truthy :: "string option \<Rightarrow> bool" where
  "truthy name = (case name of None \<Rightarrow> False | Some n \<Rightarrow> n \<noteq> [])"

definition base_prompt :: string where
  "base_prompt = ''You are a helpful assistant. '' @
     ''Your goal is to learn about the user's name and use it in the converation.''"

definition unknown_name_prompt :: string where
  "unknown_name_prompt = '' You do not know the user's name yet. '' @
     ''\<newline>\<newline>**CRITICAL INSTRUCTION:** When the user provides their name '' @
     ''(e.g., 'Hi, my name is Bob'), '' @
     ''you MUST immediately call the 'remember_user_name_external' tool '' @
     ''with the exact name they provided. This is your highest priority '' @
     ''task when a name is given. Do not answer their other queries '' @
     ''in the same turn; just call the tool.''"

text \<open>What an f-string puts for \<open>{name}\<close>.\<close>

definition format_name :: "string option \<Rightarrow> string" where
  "format_name name = (case name of None \<Rightarrow> ''None'' | Some n \<Rightarrow> n)"

definition get_system_prompt :: "string option \<Rightarrow> string" where
  "get_system_prompt name =
     (if truthy name
      then base_prompt @ '' You know the user's name is '' @ format_name name @
           ''. Address them by their name '' @ format_name name
      else base_prompt @ unknown_name_prompt)"

section \<open>The nodes of the graph\<close>

text \<open>
  The reasoning oracle \<open>agent_runnable.invoke\<close> is outside the program: a function from the
  message list it is given to the content, tool calls and id of the assistant message it
  returns.
\<close>

type_synonym reasoning_oracle = "message list \<Rightarrow> string \<times> tool_call list \<times> string option"

definition call_model :: "reasoning_oracle \<Rightarrow> agent_state \<Rightarrow> update" where
  "call_model orc s =
     (let system_prompt = get_system_prompt (user_name s);
          all_messages = SystemMessage system_prompt # messages s;
          (c, tcs, i) = orc all_messages;
          response = AIMessage c tcs i
      in no_update\<lparr>upd_messages := Some [response]\<rparr>)"

text \<open>
  \<open>update_tool_call_with_user_id\<close> writes \<open>user_id\<close> into the argument dictionary of the
  first tool call of the last message: the dictionary is the one the message in the state
  holds, so the write is visible in the state. The function then returns a new assistant
  message holding that one tool call. The result is the state after the write, and the
  returned dictionary.
\<close>

definition update_tool_call_with_user_id :: "agent_state \<Rightarrow> error + (agent_state \<times> update)" where
  "update_tool_call_with_user_id s =
     (if messages s = [] then Inl IndexError
      else case last (messages s) of
        AIMessage c tcs i \<Rightarrow>
          (case tcs of
             [] \<Rightarrow> Inr (s, no_update)
           | tool_call # rest \<Rightarrow>
               let tool_call' = tool_call\<lparr>tc_args := (tc_args tool_call)(''user_id'' \<mapsto> user_id s)\<rparr>;
                   new_message = AIMessage c [tool_call'] i
               in Inr (s\<lparr>messages := butlast (messages s) @ [AIMessage c (tool_call' # rest) i]\<rparr>,
                       no_update\<lparr>upd_messages := Some [new_message]\<rparr>))
      | _ \<Rightarrow> Inl AttributeError)"

definition update_user_name_in_state :: "agent_state \<Rightarrow> error + update" where
  "update_user_name_in_state s =
     (if length (messages s) < 2 then Inl IndexError
      else case messages s ! (length (messages s) - 2) of
        AIMessage c tcs i \<Rightarrow>
          (case tcs of
             [] \<Rightarrow> Inr no_update
           | tool_call # rest \<Rightarrow>
               if tc_name tool_call = ''remember_user_name_external''
               then (case tc_args tool_call ''name'' of
                       None \<Rightarrow> Inl KeyError
                     | Some n \<Rightarrow> Inr (no_update\<lparr>upd_user_name := Some n\<rparr>))
               else Inr no_update)
      | _ \<Rightarrow> Inl AttributeError)"

section \<open>The prebuilt tool node and routing condition\<close>

text \<open>
  \<open>ToolNode([remember_user_name_external])\<close> and \<open>tools_condition\<close> are LangGraph's. The
  tool node takes the latest assistant message of the state, wherever it stands, runs its
  tool calls and returns one \<open>ToolMessage\<close> for each, in the order of the calls. A call
  naming no registered tool is answered by an error message. The arguments are checked
  against the tool's signature (\<open>user_id\<close> and \<open>name\<close>). What the node does with an exception
  of the tool is its error policy, a parameter here: the policy gives the text of an error
  message to return in place of the result, or \<open>None\<close> to raise the exception again.

  A call without an id cannot be answered: the tool then returns its text bare, which the
  node refuses with \<open>TypeError\<close> once the tool has run, and a \<open>ToolMessage\<close> of the node's
  own needs the id of the call it answers.
\<close>

type_synonym tool_error_policy = "error \<Rightarrow> string option"

definition run_tool :: "user_db \<Rightarrow> tool_call \<Rightarrow> error + (string \<times> user_db)" where
  "run_tool db call =
     (case (tc_args call ''user_id'', tc_args call ''name'') of
        (Some uid, Some n) \<Rightarrow> remember_user_name_external db uid n
      | _ \<Rightarrow> Inl ValidationError)"

definition error_tool_message :: "string \<Rightarrow> tool_call \<Rightarrow> error + message" where
  "error_tool_message content call =
     (if tc_id call = None then Inl ValidationError
      else Inr (ToolMessage content (tc_name call) (tc_id call) Error))"

text \<open>One call: what the node gets for it, and the store after it.\<close>

definition run_one :: "tool_error_policy \<Rightarrow> user_db \<Rightarrow> tool_call \<Rightarrow> (error + message) \<times> user_db" where
  "run_one policy db call =
     (if tc_name call \<noteq> remember_tool_name
      then (error_tool_message (''Error: '' @ tc_name call @
              '' is not a valid tool, try one of [remember_user_name_external].'') call, db)
      else case run_tool db call of
             Inr (content, db') \<Rightarrow>
               (if tc_id call = None then Inl TypeError
                else Inr (ToolMessage content (tc_name call) (tc_id call) Success), db')
           | Inl e \<Rightarrow> (case policy e of
                         None \<Rightarrow> (Inl e, db)
                       | Some content \<Rightarrow> (error_tool_message content call, db)))"

text \<open>
  The calls of one message run concurrently. Their results are collected in the order of
  the calls, so the first call in that order to raise is the one whose exception leaves the
  node. Whether a call succeeds depends on the store only through the presence of its
  table, which no call changes, so each result is taken on the store the node was handed.
\<close>

fun run_calls :: "tool_error_policy \<Rightarrow> user_db \<Rightarrow> tool_call list \<Rightarrow> error + message list" where
  "run_calls policy db [] = Inr []"
| "run_calls policy db (call # calls) =
     (case fst (run_one policy db call) of
        Inl e \<Rightarrow> Inl e
      | Inr m \<Rightarrow>
          (case run_calls policy db calls of
             Inl e \<Rightarrow> Inl e
           | Inr ms \<Rightarrow> Inr (m # ms)))"

text \<open>
  The writes of the calls reach the store in an order the runner decides: the schedule, a
  rearrangement of the calls, is a parameter. A single call leaves nothing to decide.
\<close>

type_synonym tool_schedule = "tool_call list \<Rightarrow> tool_call list"

fun store_after :: "tool_error_policy \<Rightarrow> user_db \<Rightarrow> tool_call list \<Rightarrow> user_db" where
  "store_after policy db [] = db"
| "store_after policy db (call # calls) = store_after policy (snd (run_one policy db call)) calls"

fun is_AIMessage :: "message \<Rightarrow> bool" where
  "is_AIMessage (AIMessage c tcs i) = True"
| "is_AIMessage m = False"

definition tool_executor ::
  "tool_error_policy \<Rightarrow> tool_schedule \<Rightarrow> agent_state \<Rightarrow> user_db \<Rightarrow>
     (error \<times> user_db) + (update \<times> user_db)" where
  "tool_executor policy schedule s db =
     (case find is_AIMessage (rev (messages s)) of
        Some (AIMessage c tcs i) \<Rightarrow>
          (let db' = store_after policy db (if length tcs \<le> 1 then tcs else schedule tcs)
           in case run_calls policy db tcs of
                Inl e \<Rightarrow> Inl (e, db')
              | Inr ms \<Rightarrow> Inr (no_update\<lparr>upd_messages := Some ms\<rparr>, db'))
      | _ \<Rightarrow> Inl (ValueError, db))"

text \<open>
  \<open>ToolNode(tools)\<close> in graph.py is built with no error handling of its own, so the node's
  default applies: an exception of the tool is answered by a message that reports it.
\<close>

definition error_repr :: "error \<Rightarrow> string" where
  "error_repr e =
     (case e of
        IndexError \<Rightarrow> ''IndexError()''
      | AttributeError \<Rightarrow> ''AttributeError()''
      | KeyError \<Rightarrow> ''KeyError()''
      | OperationalError \<Rightarrow> ''OperationalError('no such table: users')''
      | ValidationError \<Rightarrow> ''ValidationError()''
      | ValueError \<Rightarrow> ''ValueError()''
      | TypeError \<Rightarrow> ''TypeError()''
      | GraphRecursionError \<Rightarrow> ''GraphRecursionError()'')"

definition default_tool_error_policy :: tool_error_policy where
  "default_tool_error_policy e =
     Some (''Error: '' @ error_repr e @ ''\<newline> Please fix your mistakes.'')"

datatype branch = Branch_tools | Branch_END

definition tools_condition :: "agent_state \<Rightarrow> error + branch" where
  "tools_condition s =
     (if messages s = [] then Inl ValueError
      else case last (messages s) of
        AIMessage c tcs i \<Rightarrow> Inr (if tcs \<noteq> [] then Branch_tools else Branch_END)
      | _ \<Rightarrow> Inr Branch_END)"

section \<open>The graph\<close>

text \<open>
  The nodes \<open>agent\<close>, \<open>update_tool_call\<close>, \<open>tools\<close>, \<open>update_state_with_name\<close> and the end
  of the graph. The specification calls them REASON (with ROUTE, the conditional edge),
  ENRICH, EXECUTE, SYNC and DONE.
\<close>

datatype node = Agent | Update_tool_call | Tools | Update_state_with_name | END

record framework =
  fw_oracle :: reasoning_oracle
  fw_policy :: tool_error_policy
  fw_schedule :: tool_schedule

text \<open>
  Each node as the graph runs it: the node's function, then the merge of what it returned
  into the state. \<open>update_tool_call\<close> merges into the state its own write has changed.
\<close>

definition agent_node :: "reasoning_oracle \<Rightarrow> agent_state \<Rightarrow> agent_state" where
  "agent_node orc s = apply_update s (call_model orc s)"

definition update_tool_call_node :: "agent_state \<Rightarrow> error + agent_state" where
  "update_tool_call_node s =
     (case update_tool_call_with_user_id s of
        Inl e \<Rightarrow> Inl e
      | Inr (s1, u) \<Rightarrow> Inr (apply_update s1 u))"

definition tools_node ::
  "tool_error_policy \<Rightarrow> tool_schedule \<Rightarrow> agent_state \<Rightarrow> user_db \<Rightarrow>
     (error \<times> user_db) + (agent_state \<times> user_db)" where
  "tools_node policy schedule s db =
     (case tool_executor policy schedule s db of
        Inl e \<Rightarrow> Inl e
      | Inr (u, db') \<Rightarrow> Inr (apply_update s u, db'))"

definition update_state_with_name_node :: "agent_state \<Rightarrow> error + agent_state" where
  "update_state_with_name_node s =
     (case update_user_name_in_state s of
        Inl e \<Rightarrow> Inl e
      | Inr u \<Rightarrow> Inr (apply_update s u))"

text \<open>
  One step of the graph: run the node and follow the edge out of it. The edges are those
  of \<open>add_conditional_edges\<close> and \<open>add_edge\<close>. Only the tool node is handed the store; a
  step that raises gives the exception and the store as the step left it.
\<close>

definition step ::
  "framework \<Rightarrow> node \<Rightarrow> agent_state \<Rightarrow> user_db \<Rightarrow>
     (error \<times> user_db) + (node \<times> agent_state \<times> user_db)" where
  "step fw nd s db =
     (case nd of
        Agent \<Rightarrow>
          (let s' = agent_node (fw_oracle fw) s
           in case tools_condition s' of
                Inl e \<Rightarrow> Inl (e, db)
              | Inr Branch_tools \<Rightarrow> Inr (Update_tool_call, s', db)
              | Inr Branch_END \<Rightarrow> Inr (END, s', db))
      | Update_tool_call \<Rightarrow>
          (case update_tool_call_node s of
             Inl e \<Rightarrow> Inl (e, db)
           | Inr s' \<Rightarrow> Inr (Tools, s', db))
      | Tools \<Rightarrow>
          (case tools_node (fw_policy fw) (fw_schedule fw) s db of
             Inl e \<Rightarrow> Inl e
           | Inr (s', db') \<Rightarrow> Inr (Update_state_with_name, s', db'))
      | Update_state_with_name \<Rightarrow>
          (case update_state_with_name_node s of
             Inl e \<Rightarrow> Inl (e, db)
           | Inr s' \<Rightarrow> Inr (Agent, s', db))
      | END \<Rightarrow> Inr (END, s, db))"

datatype outcome = Done | Failed error

record run_result =
  res_outcome :: outcome
  res_state :: agent_state
  res_db :: user_db
  res_trace :: "node list"

text \<open>
  Running the graph from a node, with the number of steps the runner allows (LangGraph's
  recursion limit, 25 unless configured). The runner looks at the limit before it looks
  whether a node is left to run: a run that has used all its steps raises
  \<open>GraphRecursionError\<close> even when it has just reached the end, so a turn of n nodes needs a
  limit of n + 1. An exception of a node ends the run with that error; the state is then
  the one before the failed step, the store is as the failed step left it. The trace lists
  the nodes that were run.
\<close>

primrec run :: "framework \<Rightarrow> nat \<Rightarrow> node \<Rightarrow> agent_state \<Rightarrow> user_db \<Rightarrow> run_result" where
  "run fw 0 nd s db =
     \<lparr>res_outcome = Failed GraphRecursionError, res_state = s, res_db = db, res_trace = []\<rparr>"
| "run fw (Suc k) nd s db =
     (if nd = END then \<lparr>res_outcome = Done, res_state = s, res_db = db, res_trace = []\<rparr>
      else case step fw nd s db of
             Inl (e, db') \<Rightarrow>
               \<lparr>res_outcome = Failed e, res_state = s, res_db = db', res_trace = [nd]\<rparr>
           | Inr (nd', s', db') \<Rightarrow>
               (let r = run fw k nd' s' db' in r\<lparr>res_trace := nd # res_trace r\<rparr>))"

text \<open>The graph is entered at \<open>agent\<close> (\<open>set_entry_point\<close>).\<close>

definition invoke :: "framework \<Rightarrow> nat \<Rightarrow> agent_state \<Rightarrow> user_db \<Rightarrow> run_result" where
  "invoke fw limit s db = run fw limit Agent s db"

section \<open>Session bootstrap\<close>

definition generate_agent_state :: "user_db \<Rightarrow> string \<Rightarrow> string \<Rightarrow> error + agent_state" where
  "generate_agent_state db uid user_message =
     (case get_user_name db uid of
        Inl e \<Rightarrow> Inl e
      | Inr name \<Rightarrow>
          Inr \<lparr>messages = [HumanMessage user_message], user_name = name, user_id = uid\<rparr>)"

section \<open>Concrete sessions\<close>

text \<open>
  The first run of \<open>main\<close>: user \<open>user_John\<close> says "Hi, my name is John." and the
  oracle asks for the tool with the name alone; after the tool's result it answers in text.
\<close>

definition john_call :: tool_call where
  "john_call = \<lparr>tc_name = ''remember_user_name_external'',
                 tc_args = [''name'' \<mapsto> ''John''], tc_id = Some ''call_1''\<rparr>"

definition john_call_enriched :: tool_call where
  "john_call_enriched = \<lparr>tc_name = ''remember_user_name_external'',
                 tc_args = [''name'' \<mapsto> ''John'', ''user_id'' \<mapsto> ''user_John''],
                 tc_id = Some ''call_1''\<rparr>"

definition john_oracle :: reasoning_oracle where
  "john_oracle ms =
     (case rev ms of
        ToolMessage c n i st # earlier \<Rightarrow> (''Nice to meet you, John!'', [], Some ''run_2'')
      | _ \<Rightarrow> ([], [john_call], Some ''run_1''))"

definition plain_oracle :: reasoning_oracle where
  "plain_oracle ms = (''I do not know your name yet.'', [], Some ''run_3'')"

definition list_order :: tool_schedule where
  "list_order calls = calls"

definition john_fw :: framework where
  "john_fw = \<lparr>fw_oracle = john_oracle, fw_policy = default_tool_error_policy,
              fw_schedule = list_order\<rparr>"

definition plain_fw :: framework where
  "plain_fw = \<lparr>fw_oracle = plain_oracle, fw_policy = default_tool_error_policy,
               fw_schedule = list_order\<rparr>"

definition john_start :: agent_state where
  "john_start = \<lparr>messages = [HumanMessage ''Hi, my name is John.''],
                  user_name = None, user_id = ''user_John''\<rparr>"

text \<open>The state of that run when \<open>update_tool_call\<close> is entered, and when it is left.\<close>

definition john_asked :: agent_state where
  "john_asked = \<lparr>messages = [HumanMessage ''Hi, my name is John.'',
                              AIMessage [] [john_call] (Some ''run_1'')],
                  user_name = None, user_id = ''user_John''\<rparr>"

definition john_enriched :: agent_state where
  "john_enriched = \<lparr>messages = [HumanMessage ''Hi, my name is John.'',
                                 AIMessage [] [john_call_enriched] (Some ''run_1''),
                                 AIMessage [] [john_call_enriched] (Some ''run_1'')],
                     user_name = None, user_id = ''user_John''\<rparr>"

text \<open>
  A state the synchronisation node can be handed when the oracle's call named no \<open>name\<close>
  and the tool node answered the failed call by an error message.
\<close>

definition nameless_call :: tool_call where
  "nameless_call = \<lparr>tc_name = ''remember_user_name_external'',
                     tc_args = [''user_id'' \<mapsto> ''user_John''], tc_id = Some ''call_1''\<rparr>"

definition nameless_state :: agent_state where
  "nameless_state = \<lparr>messages = [HumanMessage ''Hello'',
                                  AIMessage [] [nameless_call] (Some ''run_1''),
                                  ToolMessage ''Error: name is required''
                                    ''remember_user_name_external'' (Some ''call_1'') Error],
                      user_name = None, user_id = ''user_John''\<rparr>"

definition human_only_state :: agent_state where
  "human_only_state = \<lparr>messages = [HumanMessage ''Hello'', HumanMessage ''Are you there?''],
                        user_name = None, user_id = ''user_John''\<rparr>"

text \<open>The same run after the tool node, and a state whose assistant message asked for no tool.\<close>

definition john_executed :: agent_state where
  "john_executed = \<lparr>messages = [HumanMessage ''Hi, my name is John.'',
                                 AIMessage [] [john_call_enriched] (Some ''run_1''),
                                 AIMessage [] [john_call_enriched] (Some ''run_1''),
                                 ToolMessage ''OK, I've saved John to your main profile.''
                                   ''remember_user_name_external'' (Some ''call_1'') Success],
                     user_name = None, user_id = ''user_John''\<rparr>"

definition idle_state :: agent_state where
  "idle_state = \<lparr>messages = [AIMessage ''Hello!'' [] (Some ''run_0''), HumanMessage ''Hello''],
                  user_name = None, user_id = ''user_John''\<rparr>"


definition unnumbered_call :: tool_call where
  "unnumbered_call = \<lparr>tc_name = ''remember_user_name_external'',
                       tc_args = [''name'' \<mapsto> ''John''], tc_id = None\<rparr>"

definition unnumbered_oracle :: reasoning_oracle where
  "unnumbered_oracle ms = ([], [unnumbered_call], Some ''run_1'')"

definition unnumbered_fw :: framework where
  "unnumbered_fw = \<lparr>fw_oracle = unnumbered_oracle, fw_policy = default_tool_error_policy,
                     fw_schedule = list_order\<rparr>"

section \<open>Directive construction\<close>

text \<open>
  C10. The directive branches on the truth value of \<open>user_name\<close>, not on its presence: the
  empty string gets the directive of the unknown name, the same text as \<open>None\<close> gets, and
  not the text a non-empty name gets.
\<close>

theorem empty_name_is_unknown:
  "get_system_prompt (Some []) = get_system_prompt None \<and>
   get_system_prompt (Some []) = base_prompt @ unknown_name_prompt \<and>
   get_system_prompt (Some []) \<noteq> get_system_prompt (Some ''Bob'')"
  by (simp add: get_system_prompt_def truthy_def format_name_def unknown_name_prompt_def)

text \<open>
  C8. \<open>get_system_prompt\<close> is a function of \<open>user_name\<close> alone, with two branches. Equal
  names give equal directives. Every name that is not known (\<open>None\<close> or empty) gets the one
  directive of the unknown name, which tells the oracle to call the tool
  \<open>remember_user_name_external\<close> with the exact name provided and not to answer anything
  else in the same turn. Every known name gets a directive that states the name, ends by
  telling the oracle to address the user by it, and differs from the other branch.
\<close>

theorem directive_two_branches:
  "(\<forall>name name'. name = name' \<longrightarrow> get_system_prompt name = get_system_prompt name') \<and>
   (\<forall>name. \<not> truthy name \<longrightarrow> get_system_prompt name = base_prompt @ unknown_name_prompt) \<and>
   (\<forall>n. n \<noteq> [] \<longrightarrow>
      sublist (''You know the user's name is '' @ n) (get_system_prompt (Some n)) \<and>
      suffix (''Address them by their name '' @ n) (get_system_prompt (Some n)) \<and>
      get_system_prompt (Some n) \<noteq> base_prompt @ unknown_name_prompt) \<and>
   sublist (''you MUST immediately call the 'remember_user_name_external' tool '' @
            ''with the exact name they provided.'') (base_prompt @ unknown_name_prompt) \<and>
   suffix ''Do not answer their other queries in the same turn; just call the tool.''
          (base_prompt @ unknown_name_prompt)"
proof (intro conjI allI impI)
  fix n :: string assume n: "n \<noteq> []"
  show "sublist (''You know the user's name is '' @ n) (get_system_prompt (Some n))"
    unfolding sublist_def
    by (rule exI [of _ "base_prompt @ '' ''"],
        rule exI [of _ "''. Address them by their name '' @ n"])
       (simp add: get_system_prompt_def truthy_def format_name_def n)
  show "suffix (''Address them by their name '' @ n) (get_system_prompt (Some n))"
    unfolding suffix_def
    by (rule exI [of _ "base_prompt @ '' You know the user's name is '' @ n @ ''. ''"])
       (simp add: get_system_prompt_def truthy_def format_name_def n)
  show "get_system_prompt (Some n) \<noteq> base_prompt @ unknown_name_prompt"
    by (simp add: get_system_prompt_def truthy_def format_name_def n unknown_name_prompt_def)
next
  show "sublist (''you MUST immediately call the 'remember_user_name_external' tool '' @
            ''with the exact name they provided.'') (base_prompt @ unknown_name_prompt)"
    unfolding sublist_def
    by (rule exI [of _ "base_prompt @ '' You do not know the user's name yet. '' @
     ''\<newline>\<newline>**CRITICAL INSTRUCTION:** When the user provides their name '' @
     ''(e.g., 'Hi, my name is Bob'), ''"],
        rule exI [of _ "'' This is your highest priority '' @
     ''task when a name is given. Do not answer their other queries '' @
     ''in the same turn; just call the tool.''"])
       (simp add: unknown_name_prompt_def)
  show "suffix ''Do not answer their other queries in the same turn; just call the tool.''
          (base_prompt @ unknown_name_prompt)"
    unfolding suffix_def
    by (rule exI [of _ "base_prompt @ '' You do not know the user's name yet. '' @
     ''\<newline>\<newline>**CRITICAL INSTRUCTION:** When the user provides their name '' @
     ''(e.g., 'Hi, my name is Bob'), '' @
     ''you MUST immediately call the 'remember_user_name_external' tool '' @
     ''with the exact name they provided. This is your highest priority '' @
     ''task when a name is given. ''"])
       (simp add: unknown_name_prompt_def)
qed (simp_all add: get_system_prompt_def)

theorem directive_two_branches_witness:
  "\<not> truthy None \<and> get_system_prompt None = base_prompt @ unknown_name_prompt \<and>
   ''John'' \<noteq> [] \<and>
   sublist ''You know the user's name is John'' (get_system_prompt (Some ''John'')) \<and>
   suffix ''Address them by their name John'' (get_system_prompt (Some ''John''))"
  using directive_two_branches by (simp add: truthy_def)

section \<open>Bootstrap from the store\<close>

text \<open>
  C4. With the store's table in place, \<open>generate_agent_state\<close> returns, for every user
  identifier and message, a state whose messages are the one human record holding the
  message, whose \<open>user_id\<close> is the identifier given, and whose \<open>user_name\<close> is the stored
  name when the store has a record for the identifier and \<open>None\<close> when it has none; the
  absence of a record is not an error.
\<close>

theorem bootstrap_reads_store:
  "\<exists>s. generate_agent_state (Table t) uid user_message = Inr s \<and>
       messages s = [HumanMessage user_message] \<and>
       user_id s = uid \<and>
       (\<forall>n. t uid = Some n \<longrightarrow> user_name s = Some n) \<and>
       (t uid = None \<longrightarrow> user_name s = None)"
  by (simp add: generate_agent_state_def get_user_name_def)

theorem bootstrap_reads_store_witness:
  "[''user_John'' \<mapsto> ''John''] ''user_John'' = Some ''John'' \<and>
   [''user_John'' \<mapsto> ''John''] ''user_Jane'' = None \<and>
   generate_agent_state (Table [''user_John'' \<mapsto> ''John'']) ''user_John'' ''What is my name?'' =
     Inr \<lparr>messages = [HumanMessage ''What is my name?''], user_name = Some ''John'',
          user_id = ''user_John''\<rparr> \<and>
   generate_agent_state (Table [''user_John'' \<mapsto> ''John'']) ''user_Jane'' ''Do you know my name?'' =
     Inr \<lparr>messages = [HumanMessage ''Do you know my name?''], user_name = None,
          user_id = ''user_Jane''\<rparr>"
  using bootstrap_reads_store [of "[''user_John'' \<mapsto> ''John'']" "''user_John''" "''What is my name?''"]
        bootstrap_reads_store [of "[''user_John'' \<mapsto> ''John'']" "''user_Jane''" "''Do you know my name?''"]
  by (simp add: generate_agent_state_def get_user_name_def)

text \<open>Before \<open>create_user_database\<close>, or after \<open>cleanup_db\<close>, the read fails and so does bootstrap.\<close>

lemma bootstrap_without_table:
  "generate_agent_state NoTable uid user_message = Inl OperationalError"
  by (simp add: generate_agent_state_def get_user_name_def)

section \<open>Enrichment\<close>

text \<open>
  What the node \<open>update_tool_call\<close> leaves when the last message is an assistant message
  with a tool call: the last message with \<open>user_id\<close> written into its first call, followed
  by the new message holding that call alone.
\<close>

lemma enrich_node_result:
  assumes "messages s \<noteq> []" and "last (messages s) = AIMessage c (tc # rest) i"
  shows "update_tool_call_node s =
           Inr (s\<lparr>messages := butlast (messages s) @
                  [AIMessage c (tc\<lparr>tc_args := (tc_args tc)(''user_id'' \<mapsto> user_id s)\<rparr> # rest) i,
                   AIMessage c [tc\<lparr>tc_args := (tc_args tc)(''user_id'' \<mapsto> user_id s)\<rparr>] i]\<rparr>)"
  using assms
  by (simp add: update_tool_call_node_def update_tool_call_with_user_id_def Let_def
      apply_update_def no_update_def messages_reducer_def)

text \<open>
  C1. For every state whose latest message carries at least one tool call, the enrichment
  step succeeds and yields a state whose latest message carries one tool call: the first
  call of the old message, with the same name, id and other arguments, and with
  \<open>user_id\<close> mapped to the state's \<open>user_id\<close>, whatever the oracle had put under that key.
\<close>

theorem enrich_injects_user_id:
  assumes "messages s \<noteq> []" and "last (messages s) = AIMessage c (tc # rest) i"
  shows "\<exists>s' tc'. update_tool_call_node s = Inr s' \<and>
           user_id s' = user_id s \<and>
           last (messages s') = AIMessage c [tc'] i \<and>
           tc_args tc' ''user_id'' = Some (user_id s) \<and>
           tc_name tc' = tc_name tc \<and> tc_id tc' = tc_id tc \<and>
           (\<forall>k. k \<noteq> ''user_id'' \<longrightarrow> tc_args tc' k = tc_args tc k)"
  using enrich_node_result [OF assms] by simp

theorem enrich_injects_user_id_witness:
  "messages john_asked \<noteq> [] \<and>
   last (messages john_asked) = AIMessage [] [john_call] (Some ''run_1'') \<and>
   tc_args john_call ''user_id'' = None \<and>
   (\<exists>s' tc'. update_tool_call_node john_asked = Inr s' \<and>
      last (messages s') = AIMessage [] [tc'] (Some ''run_1'') \<and>
      tc_args tc' ''user_id'' = Some ''user_John'' \<and>
      tc_args tc' ''name'' = Some ''John'')"
proof -
  have h1: "messages john_asked \<noteq> []" by (simp add: john_asked_def)
  have h2: "last (messages john_asked) = AIMessage [] (john_call # []) (Some ''run_1'')"
    by (simp add: john_asked_def)
  have h3: "user_id john_asked = ''user_John''" by (simp add: john_asked_def)
  have h4: "tc_args john_call ''name'' = Some ''John''" "tc_args john_call ''user_id'' = None"
    by (simp_all add: john_call_def)
  from enrich_injects_user_id [OF h1 h2] h3 h4 h1 h2 show ?thesis by auto
qed

text \<open>
  C2, as the specification states it, fails: the reducer of \<open>messages\<close> concatenates, so the
  enriched copy is appended and the sequence grows. In the first run of \<open>main\<close> the two
  messages before the step are three after it.
\<close>

theorem enrich_replaces_counterexample:
  "update_tool_call_node john_asked = Inr john_enriched \<and>
   length (messages john_asked) = 2 \<and> length (messages john_enriched) = 3"
  by (simp add: update_tool_call_node_def update_tool_call_with_user_id_def Let_def
      apply_update_def no_update_def messages_reducer_def
      john_asked_def john_enriched_def john_call_def john_call_enriched_def)

text \<open>
  C2, amended. For every state whose latest message is an assistant record with a tool
  call, the enrichment step appends to the sequence a copy of that record with the same
  content and id, holding the first call with \<open>user_id\<close> injected; the record it copied
  stays at its position, with the same injection written into its first call; the message
  count grows by exactly one, and \<open>user_name\<close> and \<open>user_id\<close> are unchanged.
\<close>

theorem enrich_appends_copy:
  assumes "messages s \<noteq> []" and "last (messages s) = AIMessage c (tc # rest) i"
  shows "\<exists>s' tc'. update_tool_call_node s = Inr s' \<and>
           tc' = tc\<lparr>tc_args := (tc_args tc)(''user_id'' \<mapsto> user_id s)\<rparr> \<and>
           messages s' = butlast (messages s) @ [AIMessage c (tc' # rest) i, AIMessage c [tc'] i] \<and>
           length (messages s') = length (messages s) + 1 \<and>
           user_name s' = user_name s \<and> user_id s' = user_id s"
  using enrich_node_result [OF assms] assms(1) by simp

theorem enrich_appends_copy_witness:
  "messages john_asked \<noteq> [] \<and>
   last (messages john_asked) = AIMessage [] [john_call] (Some ''run_1'') \<and>
   update_tool_call_node john_asked = Inr john_enriched \<and>
   length (messages john_enriched) = length (messages john_asked) + 1"
proof -
  have h1: "messages john_asked \<noteq> []" by (simp add: john_asked_def)
  have h2: "last (messages john_asked) = AIMessage [] (john_call # []) (Some ''run_1'')"
    by (simp add: john_asked_def)
  from enrich_appends_copy [OF h1 h2] h1 h2 show ?thesis
    by (auto simp add: john_asked_def john_enriched_def john_call_def john_call_enriched_def)
qed

section \<open>Synchronisation\<close>

text \<open>
  C3, as the specification states it, fails. With two messages or more, a second-to-last
  message whose tool call names the tool but has no \<open>name\<close> argument makes the node raise
  \<open>KeyError\<close>, where the claim has \<open>user_name\<close> set; and a second-to-last message that is
  not an assistant message has no \<open>tool_calls\<close>, so the node raises \<open>AttributeError\<close>,
  where the claim has the state returned unchanged.
\<close>

theorem sync_counterexample:
  "2 \<le> length (messages nameless_state) \<and>
   messages nameless_state ! (length (messages nameless_state) - 2) =
     AIMessage [] [nameless_call] (Some ''run_1'') \<and>
   tc_name nameless_call = ''remember_user_name_external'' \<and>
   update_state_with_name_node nameless_state = Inl KeyError \<and>
   2 \<le> length (messages human_only_state) \<and>
   messages human_only_state ! (length (messages human_only_state) - 2) = HumanMessage ''Hello'' \<and>
   update_state_with_name_node human_only_state = Inl AttributeError"
  by (simp add: update_state_with_name_node_def update_user_name_in_state_def
      nameless_state_def nameless_call_def human_only_state_def)

text \<open>
  C3, amended. For every state with at least two messages whose second-to-last message is
  an assistant record: if the first tool call of that record names the tool
  \<open>remember_user_name_external\<close> and has a \<open>name\<close> argument, the synchronisation step
  sets \<open>user_name\<close> to that argument and changes nothing else; if the record has no tool
  call, or its first tool call names another tool, the step returns the state unchanged.
  The step never writes the durable store, and hands over to the agent node.
\<close>

theorem sync_reads_second_to_last:
  assumes "2 \<le> length (messages s)"
    and "messages s ! (length (messages s) - 2) = AIMessage c tcs i"
  shows "(\<forall>tc rest n. tcs = tc # rest \<and> tc_name tc = remember_tool_name \<and>
                     tc_args tc ''name'' = Some n \<longrightarrow>
            update_state_with_name_node s = Inr (s\<lparr>user_name := Some n\<rparr>)) \<and>
         ((tcs = [] \<or> (\<exists>tc rest. tcs = tc # rest \<and> tc_name tc \<noteq> remember_tool_name)) \<longrightarrow>
            update_state_with_name_node s = Inr s) \<and>
         (\<forall>nd' s' db'. step fw Update_state_with_name s db = Inr (nd', s', db') \<longrightarrow>
            db' = db \<and> nd' = Agent)"
  using assms
  by (auto simp add: update_state_with_name_node_def update_user_name_in_state_def
      remember_tool_name_def apply_update_def no_update_def step_def
      split: sum.splits list.splits)

theorem sync_reads_second_to_last_witness:
  "2 \<le> length (messages john_executed) \<and>
   messages john_executed ! (length (messages john_executed) - 2) =
     AIMessage [] [john_call_enriched] (Some ''run_1'') \<and>
   tc_name john_call_enriched = remember_tool_name \<and>
   tc_args john_call_enriched ''name'' = Some ''John'' \<and>
   update_state_with_name_node john_executed = Inr (john_executed\<lparr>user_name := Some ''John''\<rparr>) \<and>
   step john_fw Update_state_with_name john_executed (Table Map.empty) =
     Inr (Agent, john_executed\<lparr>user_name := Some ''John''\<rparr>, Table Map.empty) \<and>
   2 \<le> length (messages idle_state) \<and>
   messages idle_state ! (length (messages idle_state) - 2) = AIMessage ''Hello!'' [] (Some ''run_0'') \<and>
   update_state_with_name_node idle_state = Inr idle_state"
proof -
  have a1: "2 \<le> length (messages john_executed)" by (simp add: john_executed_def)
  have a2: "messages john_executed ! (length (messages john_executed) - 2) =
     AIMessage [] [john_call_enriched] (Some ''run_1'')" by (simp add: john_executed_def)
  have a3: "tc_name john_call_enriched = remember_tool_name"
    "tc_args john_call_enriched ''name'' = Some ''John''"
    by (simp_all add: john_call_enriched_def remember_tool_name_def)
  have b1: "2 \<le> length (messages idle_state)" by (simp add: idle_state_def)
  have b2: "messages idle_state ! (length (messages idle_state) - 2) =
     AIMessage ''Hello!'' [] (Some ''run_0'')" by (simp add: idle_state_def)
  have j: "update_state_with_name_node john_executed = Inr (john_executed\<lparr>user_name := Some ''John''\<rparr>)"
    using sync_reads_second_to_last [OF a1 a2, of john_fw "Table Map.empty"] a3 by blast
  have k: "update_state_with_name_node idle_state = Inr idle_state"
    using sync_reads_second_to_last [OF b1 b2, of john_fw "Table Map.empty"] by blast
  have st: "step john_fw Update_state_with_name john_executed (Table Map.empty) =
     Inr (Agent, john_executed\<lparr>user_name := Some ''John''\<rparr>, Table Map.empty)"
    using j by (simp add: step_def)
  from a1 a2 a3 b1 b2 j k st show ?thesis by simp
qed

section \<open>Invariants of the steps\<close>

text \<open>What each node does to the three fields of the state.\<close>

lemma agent_node_result:
  assumes "orc (SystemMessage (get_system_prompt (user_name s)) # messages s) = (c, tcs, i)"
  shows "agent_node orc s = s\<lparr>messages := messages s @ [AIMessage c tcs i]\<rparr>"
  using assms
  by (simp add: agent_node_def call_model_def apply_update_def no_update_def messages_reducer_def)

lemma agent_node_fields:
  "(\<exists>m. messages (agent_node orc s) = messages s @ [m]) \<and>
   user_name (agent_node orc s) = user_name s \<and> user_id (agent_node orc s) = user_id s"
  by (cases "orc (SystemMessage (get_system_prompt (user_name s)) # messages s)")
     (simp add: agent_node_result)

lemma tools_node_result:
  assumes "tools_node policy schedule s db = Inr (s', db')"
  shows "(\<exists>ms. messages s' = messages s @ ms) \<and>
         user_name s' = user_name s \<and> user_id s' = user_id s"
  using assms
  by (auto simp add: tools_node_def tool_executor_def apply_update_def no_update_def
      messages_reducer_def Let_def split: sum.splits message.splits option.splits if_splits)

lemma sync_node_result:
  assumes "update_state_with_name_node s = Inr s'"
  shows "messages s' = messages s \<and> user_id s' = user_id s"
  using assms
  by (auto simp add: update_state_with_name_node_def update_user_name_in_state_def
      apply_update_def no_update_def
      split: sum.splits message.splits if_splits list.splits option.splits)

lemma enrich_node_cases:
  assumes "update_tool_call_node s = Inr s'"
  shows "s' = s \<or>
         (\<exists>c tc rest i. messages s \<noteq> [] \<and> last (messages s) = AIMessage c (tc # rest) i \<and>
            s' = s\<lparr>messages := butlast (messages s) @
                  [AIMessage c (tc\<lparr>tc_args := (tc_args tc)(''user_id'' \<mapsto> user_id s)\<rparr> # rest) i,
                   AIMessage c [tc\<lparr>tc_args := (tc_args tc)(''user_id'' \<mapsto> user_id s)\<rparr>] i]\<rparr>)"
  using assms
  by (auto simp add: update_tool_call_node_def update_tool_call_with_user_id_def Let_def
      apply_update_def no_update_def messages_reducer_def
      split: sum.splits message.splits if_splits list.splits)

text \<open>
  C5, amended. Every step of the graph that succeeds leaves \<open>user_id\<close> as it was and never
  shortens \<open>messages\<close>. Every step but enrichment leaves the prior messages as a prefix of
  the result. Enrichment leaves all prior messages but the last as a prefix; it either
  changes nothing, or writes \<open>user_id\<close> into the first tool call of the last prior message
  and appends the copy. Only the synchronisation step changes \<open>user_name\<close>.
\<close>

theorem step_invariants:
  assumes "step fw nd s db = Inr (nd', s', db')"
  shows "user_id s' = user_id s \<and>
         length (messages s) \<le> length (messages s') \<and>
         (nd \<noteq> Update_tool_call \<longrightarrow> prefix (messages s) (messages s')) \<and>
         (nd = Update_tool_call \<longrightarrow>
            prefix (butlast (messages s)) (messages s') \<and>
            (messages s' = messages s \<or>
             (\<exists>c tc rest i. last (messages s) = AIMessage c (tc # rest) i \<and>
                messages s' = butlast (messages s) @
                  [AIMessage c (tc\<lparr>tc_args := (tc_args tc)(''user_id'' \<mapsto> user_id s)\<rparr> # rest) i,
                   AIMessage c [tc\<lparr>tc_args := (tc_args tc)(''user_id'' \<mapsto> user_id s)\<rparr>] i]))) \<and>
         (nd \<noteq> Update_state_with_name \<longrightarrow> user_name s' = user_name s)"
proof (cases nd)
  case Agent
  from assms Agent have "s' = agent_node (fw_oracle fw) s"
    by (auto simp add: step_def Let_def split: sum.splits branch.splits)
  with agent_node_fields [of "fw_oracle fw" s] Agent show ?thesis by auto
next
  case Update_tool_call
  with assms have "update_tool_call_node s = Inr s'"
    by (auto simp add: step_def split: sum.splits)
  from enrich_node_cases [OF this] Update_tool_call show ?thesis
    by (auto simp add: prefixeq_butlast)
next
  case Tools
  with assms have "tools_node (fw_policy fw) (fw_schedule fw) s db = Inr (s', db')"
    by (auto simp add: step_def split: sum.splits)
  from tools_node_result [OF this] Tools show ?thesis by auto
next
  case Update_state_with_name
  with assms have "update_state_with_name_node s = Inr s'"
    by (auto simp add: step_def split: sum.splits)
  from sync_node_result [OF this] Update_state_with_name show ?thesis by auto
next
  case END
  with assms show ?thesis by (simp add: step_def)
qed

text \<open>
  C5, as the specification states it, fails at the enrichment step: the write into the
  argument dictionary changes the last prior message, so the prior messages are not a
  prefix of the merged result.
\<close>

theorem prefix_counterexample:
  "step john_fw Update_tool_call john_asked (Table Map.empty) =
     Inr (Tools, john_enriched, Table Map.empty) \<and>
   \<not> prefix (messages john_asked) (messages john_enriched)"
proof -
  have "john_call \<noteq> john_call_enriched"
  proof
    assume "john_call = john_call_enriched"
    then have "tc_args john_call ''user_id'' = tc_args john_call_enriched ''user_id''" by simp
    then show False by (simp add: john_call_def john_call_enriched_def)
  qed
  then have "\<not> prefix (messages john_asked) (messages john_enriched)"
    by (simp add: john_asked_def john_enriched_def)
  moreover have "step john_fw Update_tool_call john_asked (Table Map.empty) =
     Inr (Tools, john_enriched, Table Map.empty)"
    by (simp add: step_def update_tool_call_node_def update_tool_call_with_user_id_def Let_def
      apply_update_def no_update_def messages_reducer_def
      john_asked_def john_enriched_def john_call_def john_call_enriched_def)
  ultimately show ?thesis by simp
qed

theorem step_invariants_witness:
  "step john_fw Update_tool_call john_asked (Table Map.empty) =
     Inr (Tools, john_enriched, Table Map.empty) \<and>
   user_id john_enriched = user_id john_asked \<and>
   user_name john_enriched = user_name john_asked \<and>
   length (messages john_asked) \<le> length (messages john_enriched) \<and>
   prefix (butlast (messages john_asked)) (messages john_enriched)"
proof -
  have st: "step john_fw Update_tool_call john_asked (Table Map.empty) =
     Inr (Tools, john_enriched, Table Map.empty)"
    by (simp add: step_def update_tool_call_node_def update_tool_call_with_user_id_def Let_def
      apply_update_def no_update_def messages_reducer_def
      john_asked_def john_enriched_def john_call_def john_call_enriched_def)
  from step_invariants [OF st] st show ?thesis by simp
qed

section \<open>Runs of the graph\<close>

text \<open>The steps of a turn, one node at a time, and how a run unfolds along them.\<close>

lemma tools_condition_appended:
  "tools_condition (s\<lparr>messages := messages s @ [AIMessage c tcs i]\<rparr>) =
     Inr (if tcs \<noteq> [] then Branch_tools else Branch_END)"
  by (simp add: tools_condition_def)

lemma step_agent:
  assumes "fw_oracle fw (SystemMessage (get_system_prompt (user_name s)) # messages s) = (c, tcs, i)"
  shows "step fw Agent s db =
           Inr (if tcs \<noteq> [] then Update_tool_call else END,
                s\<lparr>messages := messages s @ [AIMessage c tcs i]\<rparr>, db)"
  using agent_node_result [of "fw_oracle fw" s c tcs i] assms
  by (simp add: step_def tools_condition_appended)

lemma step_enrich:
  assumes "messages s \<noteq> []" and "last (messages s) = AIMessage c (tc # rest) i"
  shows "step fw Update_tool_call s db =
           Inr (Tools,
                s\<lparr>messages := butlast (messages s) @
                  [AIMessage c (tc\<lparr>tc_args := (tc_args tc)(''user_id'' \<mapsto> user_id s)\<rparr> # rest) i,
                   AIMessage c [tc\<lparr>tc_args := (tc_args tc)(''user_id'' \<mapsto> user_id s)\<rparr>] i]\<rparr>,
                db)"
  by (simp add: step_def enrich_node_result [OF assms])

lemma latest_is_last:
  assumes "messages s = ms @ [AIMessage c tcs i]"
  shows "find is_AIMessage (rev (messages s)) = Some (AIMessage c tcs i)"
  using assms by simp

lemma step_tools_ok:
  assumes "messages s = ms @ [AIMessage c [tc] i]"
    and "tc_name tc = remember_tool_name"
    and "tc_args tc ''user_id'' = Some uid" and "tc_args tc ''name'' = Some n"
    and "tc_id tc \<noteq> None"
  shows "step fw Tools s (Table t) =
           Inr (Update_state_with_name,
                s\<lparr>messages := messages s @
                  [ToolMessage (''OK, I've saved '' @ n @ '' to your main profile.'')
                     (tc_name tc) (tc_id tc) Success]\<rparr>,
                Table (t(uid \<mapsto> n)))"
  using assms
  by (simp add: step_def tools_node_def tool_executor_def latest_is_last run_one_def run_tool_def
      remember_user_name_external_def persist_user_name_to_db_def
      apply_update_def no_update_def messages_reducer_def)

lemma step_tools_unanswerable:
  assumes "messages s = ms @ [AIMessage c [tc] i]"
    and "tc_name tc = remember_tool_name"
    and "tc_args tc ''user_id'' = Some uid" and "tc_args tc ''name'' = Some n"
    and "tc_id tc = None"
  shows "step fw Tools s (Table t) = Inl (TypeError, Table (t(uid \<mapsto> n)))"
  using assms
  by (simp add: step_def tools_node_def tool_executor_def latest_is_last run_one_def run_tool_def
      remember_user_name_external_def persist_user_name_to_db_def)


lemma step_sync_ok:
  assumes "messages s = ms @ [AIMessage c (tc # rest) i, m]"
    and "tc_name tc = remember_tool_name" and "tc_args tc ''name'' = Some n"
  shows "step fw Update_state_with_name s db = Inr (Agent, s\<lparr>user_name := Some n\<rparr>, db)"
  using assms
  by (simp add: step_def update_state_with_name_node_def update_user_name_in_state_def
      remember_tool_name_def apply_update_def no_update_def nth_append)

lemma run_END:
  "run fw (Suc k) END s db = \<lparr>res_outcome = Done, res_state = s, res_db = db, res_trace = []\<rparr>"
  by simp

lemma run_step:
  assumes "nd \<noteq> END" and "step fw nd s db = Inr (nd', s', db')"
  shows "run fw (Suc k) nd s db =
           (run fw k nd' s' db')\<lparr>res_trace := nd # res_trace (run fw k nd' s' db')\<rparr>"
  using assms by (simp add: Let_def)

lemma run_raise:
  assumes "nd \<noteq> END" and "step fw nd s db = Inl (e, db')"
  shows "run fw (Suc k) nd s db =
           \<lparr>res_outcome = Failed e, res_state = s, res_db = db', res_trace = [nd]\<rparr>"
  using assms by simp

text \<open>
  C6. For every turn in which the oracle's reply carries no tool call, the run goes from
  the agent node straight to the end: the trace is the agent node alone, so the enrichment,
  tool and synchronisation nodes are never reached; the run is \<open>Done\<close>, the store is
  untouched, and the messages have grown by exactly one record, the reply. The turn is one
  node, so the runner needs a step limit of two or more.
\<close>

theorem plain_reply_ends_turn:
  assumes "fw_oracle fw (SystemMessage (get_system_prompt (user_name s)) # messages s) = (c, [], i)"
    and "1 < limit"
  shows "invoke fw limit s db =
           \<lparr>res_outcome = Done,
            res_state = s\<lparr>messages := messages s @ [AIMessage c [] i]\<rparr>,
            res_db = db, res_trace = [Agent]\<rparr> \<and>
         Update_tool_call \<notin> set (res_trace (invoke fw limit s db)) \<and>
         Tools \<notin> set (res_trace (invoke fw limit s db)) \<and>
         Update_state_with_name \<notin> set (res_trace (invoke fw limit s db)) \<and>
         length (messages (res_state (invoke fw limit s db))) = length (messages s) + 1"
proof -
  from assms(2) have "limit = Suc (Suc (limit - 2))" by arith
  then obtain k where k: "limit = Suc (Suc k)" ..
  have a: "step fw Agent s db = Inr (END, s\<lparr>messages := messages s @ [AIMessage c [] i]\<rparr>, db)"
    using step_agent [OF assms(1), of db] by simp
  have "invoke fw limit s db =
           \<lparr>res_outcome = Done,
            res_state = s\<lparr>messages := messages s @ [AIMessage c [] i]\<rparr>,
            res_db = db, res_trace = [Agent]\<rparr>"
    unfolding invoke_def k
    by (simp only: run_step [OF _ a] run_END node.distinct not_False_eq_True) simp
  then show ?thesis by simp
qed

theorem plain_reply_ends_turn_witness:
  "fw_oracle plain_fw (SystemMessage (get_system_prompt (user_name john_start)) # messages john_start) =
     (''I do not know your name yet.'', [], Some ''run_3'') \<and> (1::nat) < 25 \<and>
   res_outcome (invoke plain_fw 25 john_start (Table Map.empty)) = Done \<and>
   res_trace (invoke plain_fw 25 john_start (Table Map.empty)) = [Agent] \<and>
   messages (res_state (invoke plain_fw 25 john_start (Table Map.empty))) =
     [HumanMessage ''Hi, my name is John.'',
      AIMessage ''I do not know your name yet.'' [] (Some ''run_3'')]"
proof -
  have h: "fw_oracle plain_fw (SystemMessage (get_system_prompt (user_name john_start)) # messages john_start) =
     (''I do not know your name yet.'', [], Some ''run_3'')"
    by (simp add: plain_fw_def plain_oracle_def)
  have l: "(1::nat) < 25" by simp
  from plain_reply_ends_turn [OF h l, of "Table Map.empty"] h show ?thesis
    by (simp add: john_start_def)
qed

text \<open>With a step limit of one the same turn ends in \<open>GraphRecursionError\<close>.\<close>

lemma limit_reached_at_end:
  assumes "fw_oracle fw (SystemMessage (get_system_prompt (user_name s)) # messages s) = (c, [], i)"
  shows "res_outcome (invoke fw 1 s db) = Failed GraphRecursionError"
proof -
  have a: "step fw Agent s db = Inr (END, s\<lparr>messages := messages s @ [AIMessage c [] i]\<rparr>, db)"
    using step_agent [OF assms, of db] by simp
  have "invoke fw (Suc 0) s db =
          \<lparr>res_outcome = Failed GraphRecursionError,
           res_state = s\<lparr>messages := messages s @ [AIMessage c [] i]\<rparr>,
           res_db = db, res_trace = [Agent]\<rparr>"
    unfolding invoke_def
    by (simp only: run_step [OF _ a] node.distinct not_False_eq_True) simp
  then show ?thesis by simp
qed


section \<open>A failed tool call\<close>




section \<open>The round trip through the store\<close>

text \<open>
  A turn in which the oracle asks for the tool with a name, in a call that has an id, and,
  once the tool has answered, replies in text: five nodes, after which the store holds the
  name under the state's \<open>user_id\<close> and the state holds it as \<open>user_name\<close>.
\<close>

lemma remember_turn:
  assumes reply: "fw_oracle fw (SystemMessage (get_system_prompt (user_name s)) # messages s) =
                    (c, tc # rest, i)"
    and nm: "tc_name tc = remember_tool_name"
    and arg: "tc_args tc ''name'' = Some n"
    and cid: "tc_id tc \<noteq> None"
    and ack: "\<forall>ms c' nm' ci st. fst (snd (fw_oracle fw (ms @ [ToolMessage c' nm' ci st]))) = []"
  shows "\<exists>s'. invoke fw (Suc (Suc (Suc (Suc (Suc (Suc k)))))) s (Table t) =
           \<lparr>res_outcome = Done, res_state = s', res_db = Table (t(user_id s \<mapsto> n)),
            res_trace = [Agent, Update_tool_call, Tools, Update_state_with_name, Agent]\<rparr> \<and>
           user_name s' = Some n \<and> user_id s' = user_id s"
proof -
  let ?tc = "tc\<lparr>tc_args := (tc_args tc)(''user_id'' \<mapsto> user_id s)\<rparr>"
  let ?tm = "ToolMessage (''OK, I've saved '' @ n @ '' to your main profile.'')
               (tc_name tc) (tc_id tc) Success"
  let ?s1 = "s\<lparr>messages := messages s @ [AIMessage c (tc # rest) i]\<rparr>"
  let ?s2 = "s\<lparr>messages := messages s @ [AIMessage c (?tc # rest) i, AIMessage c [?tc] i]\<rparr>"
  let ?s3 = "s\<lparr>messages := messages s @ [AIMessage c (?tc # rest) i, AIMessage c [?tc] i, ?tm]\<rparr>"
  let ?s4 = "?s3\<lparr>user_name := Some n\<rparr>"
  let ?db = "Table (t(user_id s \<mapsto> n))"
  have a: "step fw Agent s (Table t) = Inr (Update_tool_call, ?s1, Table t)"
    using step_agent [OF reply, of "Table t"] by simp
  have b: "step fw Update_tool_call ?s1 (Table t) = Inr (Tools, ?s2, Table t)"
    using step_enrich [of ?s1 c tc rest i fw "Table t"] by simp
  have c: "step fw Tools ?s2 (Table t) = Inr (Update_state_with_name, ?s3, ?db)"
    using step_tools_ok [of ?s2 "messages s @ [AIMessage c (?tc # rest) i]" c ?tc i "user_id s" n fw t]
      nm arg cid by simp
  have d: "step fw Update_state_with_name ?s3 ?db = Inr (Agent, ?s4, ?db)"
    using step_sync_ok [of ?s3 "messages s @ [AIMessage c (?tc # rest) i]" c ?tc "[]" i ?tm n fw ?db]
      nm arg by simp
  obtain c2 tcs2 i2 where
    o2: "fw_oracle fw (SystemMessage (get_system_prompt (user_name ?s4)) # messages ?s4) = (c2, tcs2, i2)"
    by (cases "fw_oracle fw (SystemMessage (get_system_prompt (user_name ?s4)) # messages ?s4)") blast
  have "SystemMessage (get_system_prompt (user_name ?s4)) # messages ?s4 =
          (SystemMessage (get_system_prompt (user_name ?s4)) # messages s @
             [AIMessage c (?tc # rest) i, AIMessage c [?tc] i]) @ [?tm]"
    by simp
  with ack have "fst (snd (fw_oracle fw (SystemMessage (get_system_prompt (user_name ?s4)) # messages ?s4))) = []"
    by metis
  with o2 have e2: "tcs2 = []" by simp
  let ?s5 = "?s4\<lparr>messages := messages ?s4 @ [AIMessage c2 [] i2]\<rparr>"
  have e: "step fw Agent ?s4 ?db = Inr (END, ?s5, ?db)"
    using step_agent [OF o2, of ?db] e2 by simp
  have "invoke fw (Suc (Suc (Suc (Suc (Suc (Suc k)))))) s (Table t) =
           \<lparr>res_outcome = Done, res_state = ?s5, res_db = ?db,
            res_trace = [Agent, Update_tool_call, Tools, Update_state_with_name, Agent]\<rparr>"
    unfolding invoke_def
    by (simp only: run_step [OF _ a] run_step [OF _ b] run_step [OF _ c] run_step [OF _ d]
        run_step [OF _ e] run_END node.distinct not_False_eq_True) simp
  moreover have "user_name ?s5 = Some n \<and> user_id ?s5 = user_id s" by simp
  ultimately show ?thesis by blast
qed

text \<open>
  C9. A write to the store that succeeds is read back: \<open>get_user_name\<close> after
  \<open>persist_user_name_to_db\<close> for the same identifier returns the name written, and of two
  writes to one identifier the later one is read. After a turn in which the oracle calls
  the tool with a name, in a call that has an id (given a step limit of six or more, and
  an oracle that replies in text after the tool's result), the run is \<open>Done\<close>, the store
  returns that name for the state's \<open>user_id\<close>, and the state's \<open>user_name\<close> is that name;
  with \<open>user_John\<close> and \<open>John\<close> this is the first run of \<open>main\<close>.
\<close>

theorem remember_round_trip:
  assumes reply: "fw_oracle fw (SystemMessage (get_system_prompt (user_name s)) # messages s) =
                    (c, tc # rest, i)"
    and nm: "tc_name tc = remember_tool_name"
    and arg: "tc_args tc ''name'' = Some n"
    and cid: "tc_id tc \<noteq> None"
    and ack: "\<forall>ms c' nm' ci st. fst (snd (fw_oracle fw (ms @ [ToolMessage c' nm' ci st]))) = []"
  shows "(\<forall>db uid n1 db1. persist_user_name_to_db db uid n1 = Inr db1 \<longrightarrow>
            get_user_name db1 uid = Inr (Some n1)) \<and>
         (\<forall>db uid n1 n2 db1 db2.
            persist_user_name_to_db db uid n1 = Inr db1 \<and>
            persist_user_name_to_db db1 uid n2 = Inr db2 \<longrightarrow>
            get_user_name db2 uid = Inr (Some n2)) \<and>
         res_outcome (invoke fw (6 + k) s (Table t)) = Done \<and>
         get_user_name (res_db (invoke fw (6 + k) s (Table t))) (user_id s) = Inr (Some n) \<and>
         user_name (res_state (invoke fw (6 + k) s (Table t))) = Some n"
proof -
  have p1: "\<forall>db uid n1 db1. persist_user_name_to_db db uid n1 = Inr db1 \<longrightarrow>
            get_user_name db1 uid = Inr (Some n1)"
    by (auto simp add: persist_user_name_to_db_def get_user_name_def split: user_db.splits)
  have p2: "\<forall>db uid n1 n2 db1 db2.
            persist_user_name_to_db db uid n1 = Inr db1 \<and>
            persist_user_name_to_db db1 uid n2 = Inr db2 \<longrightarrow>
            get_user_name db2 uid = Inr (Some n2)"
    by (auto simp add: persist_user_name_to_db_def get_user_name_def split: user_db.splits)
  have k6: "6 + k = Suc (Suc (Suc (Suc (Suc (Suc k)))))" by simp
  from remember_turn [OF reply nm arg cid ack, of k t] obtain s' where
    "invoke fw (6 + k) s (Table t) =
           \<lparr>res_outcome = Done, res_state = s', res_db = Table (t(user_id s \<mapsto> n)),
            res_trace = [Agent, Update_tool_call, Tools, Update_state_with_name, Agent]\<rparr>"
    and "user_name s' = Some n"
    unfolding k6 by blast
  then have "res_outcome (invoke fw (6 + k) s (Table t)) = Done \<and>
         get_user_name (res_db (invoke fw (6 + k) s (Table t))) (user_id s) = Inr (Some n) \<and>
         user_name (res_state (invoke fw (6 + k) s (Table t))) = Some n"
    by (simp add: get_user_name_def)
  with p1 p2 show ?thesis by blast
qed

lemma john_oracle_acknowledges:
  "\<forall>ms c' nm' ci st. fst (snd (fw_oracle john_fw (ms @ [ToolMessage c' nm' ci st]))) = []"
  by (simp add: john_fw_def john_oracle_def)

theorem remember_round_trip_witness:
  "fw_oracle john_fw (SystemMessage (get_system_prompt (user_name john_start)) # messages john_start) =
     ([], [john_call], Some ''run_1'') \<and>
   tc_name john_call = remember_tool_name \<and> tc_args john_call ''name'' = Some ''John'' \<and>
   tc_id john_call \<noteq> None \<and>
   user_id john_start = ''user_John'' \<and>
   persist_user_name_to_db (Table Map.empty) ''user_John'' ''Jon'' = Inr (Table [''user_John'' \<mapsto> ''Jon'']) \<and>
   persist_user_name_to_db (Table [''user_John'' \<mapsto> ''Jon'']) ''user_John'' ''John'' =
     Inr (Table [''user_John'' \<mapsto> ''John'']) \<and>
   get_user_name (Table [''user_John'' \<mapsto> ''John'']) ''user_John'' = Inr (Some ''John'') \<and>
   res_outcome (invoke john_fw 25 john_start (Table Map.empty)) = Done \<and>
   get_user_name (res_db (invoke john_fw 25 john_start (Table Map.empty))) ''user_John'' =
     Inr (Some ''John'') \<and>
   user_name (res_state (invoke john_fw 25 john_start (Table Map.empty))) = Some ''John''"
proof -
  have o: "fw_oracle john_fw (SystemMessage (get_system_prompt (user_name john_start)) # messages john_start)
          = ([], john_call # [], Some ''run_1'')"
    by (simp add: john_fw_def john_oracle_def john_start_def)
  have nm: "tc_name john_call = remember_tool_name"
    by (simp add: john_call_def remember_tool_name_def)
  have arg: "tc_args john_call ''name'' = Some ''John''" by (simp add: john_call_def)
  have cid: "tc_id john_call \<noteq> None" by (simp add: john_call_def)
  have uid: "user_id john_start = ''user_John''" by (simp add: john_start_def)
  have p1: "persist_user_name_to_db (Table Map.empty) ''user_John'' ''Jon'' =
              Inr (Table [''user_John'' \<mapsto> ''Jon''])"
    by (simp add: persist_user_name_to_db_def)
  have p2: "persist_user_name_to_db (Table [''user_John'' \<mapsto> ''Jon'']) ''user_John'' ''John'' =
     Inr (Table [''user_John'' \<mapsto> ''John''])"
    by (simp add: persist_user_name_to_db_def)
  have n: "6 + 19 = (25::nat)" by simp
  note rt = remember_round_trip [OF o nm arg cid john_oracle_acknowledges, of 19 Map.empty]
  have g: "get_user_name (Table [''user_John'' \<mapsto> ''John'']) ''user_John'' = Inr (Some ''John'')"
    using rt p1 p2 by blast
  from rt n uid o nm arg cid p1 p2 g show ?thesis by simp
qed

text \<open>
  A tool call without an id: the tool writes the name, the node then raises \<open>TypeError\<close>,
  and the run ends before the synchronisation node, with \<open>user_name\<close> unset.
\<close>

lemma call_without_id_raises_after_write:
  "res_outcome (invoke unnumbered_fw 25 john_start (Table Map.empty)) = Failed TypeError \<and>
   res_trace (invoke unnumbered_fw 25 john_start (Table Map.empty)) =
     [Agent, Update_tool_call, Tools] \<and>
   res_db (invoke unnumbered_fw 25 john_start (Table Map.empty)) =
     Table [''user_John'' \<mapsto> ''John''] \<and>
   user_name (res_state (invoke unnumbered_fw 25 john_start (Table Map.empty))) = None"
proof -
  let ?tc = "unnumbered_call\<lparr>tc_args := (tc_args unnumbered_call)(''user_id'' \<mapsto> ''user_John'')\<rparr>"
  let ?s1 = "john_start\<lparr>messages := messages john_start @ [AIMessage [] [unnumbered_call] (Some ''run_1'')]\<rparr>"
  let ?s2 = "john_start\<lparr>messages := messages john_start @
               [AIMessage [] [?tc] (Some ''run_1''), AIMessage [] [?tc] (Some ''run_1'')]\<rparr>"
  let ?db = "Table (Map.empty :: string \<rightharpoonup> string)"
  have o: "fw_oracle unnumbered_fw (SystemMessage (get_system_prompt (user_name john_start)) # messages john_start)
          = ([], [unnumbered_call], Some ''run_1'')"
    by (simp add: unnumbered_fw_def unnumbered_oracle_def)
  have a: "step unnumbered_fw Agent john_start ?db = Inr (Update_tool_call, ?s1, ?db)"
    using step_agent [OF o, of ?db] by simp
  have b: "step unnumbered_fw Update_tool_call ?s1 ?db = Inr (Tools, ?s2, ?db)"
    using step_enrich [of ?s1 "[]" unnumbered_call "[]" "Some ''run_1''" unnumbered_fw ?db]
    by (simp add: john_start_def)
  have c: "step unnumbered_fw Tools ?s2 ?db = Inl (TypeError, Table [''user_John'' \<mapsto> ''John''])"
    using step_tools_unanswerable [of ?s2 "messages john_start @ [AIMessage [] [?tc] (Some ''run_1'')]"
        "[]" ?tc "Some ''run_1''" "''user_John''" "''John''" unnumbered_fw Map.empty]
    by (simp add: unnumbered_call_def remember_tool_name_def)
  have n: "(25::nat) = Suc (Suc (Suc 22))" by simp
  have "invoke unnumbered_fw 25 john_start ?db =
           \<lparr>res_outcome = Failed TypeError, res_state = ?s2,
            res_db = Table [''user_John'' \<mapsto> ''John''],
            res_trace = [Agent, Update_tool_call, Tools]\<rparr>"
    unfolding invoke_def n
    by (simp only: run_step [OF _ a] run_step [OF _ b] run_raise [OF _ c]
        node.distinct not_False_eq_True) simp
  then show ?thesis by (simp add: john_start_def)
qed

end
